theory Spec2Isabelle
  imports Complex_Main "HOL-Library.AList"
begin

section \<open>Data model of kg_manager.py\<close>

text \<open>
  A Python dict keeps its keys in insertion order and holds each key once: it is an
  association list that \<open>AList.update\<close> changes in place or extends at the end.
  Floating-point numbers are read as reals: rounding is outside this development.
\<close>

type_synonym attrs = "(string \<times> string) list"
type_synonym vec = "real list"
type_synonym emb_table = "(string \<times> vec) list"

text \<open>
  The networkx graph \<open>nx.Graph()\<close>: a node dict from node id to its attribute dict and
  an undirected simple edge set. The edge between \<open>u\<close> and \<open>v\<close> is the key \<open>{u, v}\<close>,
  so that \<open>(u, v)\<close> and \<open>(v, u)\<close> are one edge.
\<close>

record kgraph =
  nodes :: "(string \<times> attrs) list"
  edges :: "(string set \<times> attrs) list"

definition empty_graph :: kgraph where
  "empty_graph = \<lparr>nodes = [], edges = []\<rparr>"

definition has_node :: "kgraph \<Rightarrow> string \<Rightarrow> bool" where
  "has_node g n = (map_of (nodes g) n \<noteq> None)"



text \<open>\<open>d.update(a)\<close>: every key of \<open>a\<close>, in order, is set in \<open>d\<close>.\<close>

definition dict_update :: "attrs \<Rightarrow> attrs \<Rightarrow> attrs" where
  "dict_update d a = fold (\<lambda>(k, v). AList.update k v) a d"

definition upd_attrs :: "attrs option \<Rightarrow> attrs \<Rightarrow> attrs" where
  "upd_attrs old a = (case old of None \<Rightarrow> dict_update [] a | Some d \<Rightarrow> dict_update d a)"

text \<open>\<open>G.add_node(n, **a)\<close>: a new node gets the attributes, an existing one is updated.\<close>

definition add_node :: "kgraph \<Rightarrow> string \<Rightarrow> attrs \<Rightarrow> kgraph" where
  "add_node g n a = g\<lparr>nodes := AList.update n (upd_attrs (map_of (nodes g) n) a) (nodes g)\<rparr>"

text \<open>
  \<open>G.add_edge(u, v, **a)\<close>: an endpoint that is not a node yet is created with no
  attribute at all, then the edge is created or its attributes updated.
\<close>

definition add_edge :: "kgraph \<Rightarrow> string \<Rightarrow> string \<Rightarrow> attrs \<Rightarrow> kgraph" where
  "add_edge g u v a =
     (let g1 = (if has_node g u then g else add_node g u []);
          g2 = (if has_node g1 v then g1 else add_node g1 v [])
      in g2\<lparr>edges := AList.update {u, v} (upd_attrs (map_of (edges g2) {u, v}) a) (edges g2)\<rparr>)"

datatype error = ValueError | NumpyError | IOError | ReadError | TrainError | KeyError

text \<open>
  The outcome of one write to a file: it succeeds, or \<open>open(..., "w")\<close> fails and the
  file is as before, or the dump fails after the file was truncated and the file is
  unreadable. A file is \<open>None\<close> when it is missing or unreadable.
\<close>

datatype wr = WOk | WFailOpen | WFailDump

definition write_file :: "wr \<Rightarrow> 'a \<Rightarrow> 'a option \<Rightarrow> bool \<times> 'a option" where
  "write_file w x f =
     (case w of WOk \<Rightarrow> (True, Some x) | WFailOpen \<Rightarrow> (False, f) | WFailDump \<Rightarrow> (False, None))"

text \<open>
  The state of the process: the globals \<open>G\<close> and \<open>embeddings\<close>, and the three files
  \<open>careerhunt_kg.gpickle\<close>, \<open>embeddings.json\<close> and \<open>new_nodes_log.json\<close>.
\<close>

record kg_state =
  G :: kgraph
  embeddings :: emb_table
  graph_file :: "kgraph option"
  emb_file :: "emb_table option"
  log_file :: "(string \<times> string) list option"

definition get_node :: "kg_state \<Rightarrow> string \<Rightarrow> attrs option" where
  "get_node s n = map_of (nodes (G s)) n"

definition get_embedding :: "kg_state \<Rightarrow> string \<Rightarrow> vec option" where
  "get_embedding s n = map_of (embeddings s) n"

section \<open>Incremental insert\<close>

definition log_new_node :: "wr \<Rightarrow> string \<Rightarrow> string \<Rightarrow> kg_state \<Rightarrow> error option \<times> kg_state" where
  "log_new_node w node_name node_type s =
     (case log_file s of
        None \<Rightarrow> (Some IOError, s)
      | Some entries \<Rightarrow>
          (case write_file w (entries @ [(node_name, node_type)]) (log_file s) of
             (True, f) \<Rightarrow> (None, s\<lparr>log_file := f\<rparr>)
           | (False, f) \<Rightarrow> (Some IOError, s\<lparr>log_file := f\<rparr>)))"

definition startswith :: "string \<Rightarrow> string \<Rightarrow> bool" where
  "startswith s p = (take (length p) s = p)"

text \<open>Lines 49 to 56: a neighbor that is not in the graph is created from its prefix.\<close>

definition infer_neighbor :: "kgraph \<Rightarrow> string \<Rightarrow> kgraph" where
  "infer_neighbor g n =
     (if has_node g n then g
      else if startswith n ''job_'' then add_node g n [(''type'', ''job'')]
      else if startswith n ''skill_'' then add_node g n [(''type'', ''skill'')]
      else if startswith n ''company_'' then add_node g n [(''type'', ''company'')]
      else g)"

text \<open>One turn of the loop of lines 48 to 57.\<close>

definition connect_neighbor :: "string \<Rightarrow> string \<Rightarrow> kgraph \<Rightarrow> kgraph" where
  "connect_neighbor node_name n g = add_edge (infer_neighbor g n) node_name n []"

text \<open>Lines 45 to 57: the node itself, then every neighbor in turn.\<close>

definition insert_graph :: "string \<Rightarrow> string \<Rightarrow> string list \<Rightarrow> kgraph \<Rightarrow> kgraph" where
  "insert_graph node_name node_type neighbors g =
     fold (connect_neighbor node_name) neighbors (add_node g node_name [(''type'', node_type)])"

text \<open>
  \<open>np.array(rows).mean(axis=0)\<close>: the rows are summed componentwise and divided by
  their number; rows of different lengths make numpy raise.
\<close>

definition mean_axis0 :: "vec list \<Rightarrow> vec option" where
  "mean_axis0 vs =
     (case vs of
        [] \<Rightarrow> None
      | v # rest \<Rightarrow>
          if list_all (\<lambda>w. length w = length v) rest
          then Some (map (\<lambda>x. x / real (length vs)) (fold (\<lambda>w acc. map2 (+) acc w) rest v))
          else None)"

text \<open>\<open>np.random.normal(scale=0.01, size=32)\<close>: 32 draws of the generator.\<close>

definition normal_sample :: "(nat \<Rightarrow> real) \<Rightarrow> vec" where
  "normal_sample draw = map draw [0..<32]"

record io_insert =
  w_log :: wr
  w_graph :: wr
  w_emb :: wr

text \<open>Lines 60 to 66: the vector the new node gets.\<close>

definition approx_embedding :: "(nat \<Rightarrow> real) \<Rightarrow> emb_table \<Rightarrow> string list \<Rightarrow> vec option" where
  "approx_embedding draw emb neighbors =
     (let valid_neighbors = filter (\<lambda>n. map_of emb n \<noteq> None) neighbors
      in if valid_neighbors \<noteq> []
         then mean_axis0 (map (\<lambda>n. the (map_of emb n)) valid_neighbors)
         else Some (normal_sample draw))"

definition add_node_with_neighbors ::
  "io_insert \<Rightarrow> (nat \<Rightarrow> real) \<Rightarrow> string \<Rightarrow> string \<Rightarrow> string list \<Rightarrow> kg_state
     \<Rightarrow> error option \<times> kg_state" where
  "add_node_with_neighbors io draw node_name node_type neighbors s =
     (if node_type \<notin> set [''job'', ''skill'', ''company''] then (Some ValueError, s)
      else
        let s1 = s\<lparr>G := insert_graph node_name node_type neighbors (G s)\<rparr>
        in case approx_embedding draw (embeddings s1) neighbors of
             None \<Rightarrow> (Some NumpyError, s1)
           | Some avg_vec \<Rightarrow>
               let s2 = s1\<lparr>embeddings := AList.update node_name avg_vec (embeddings s1)\<rparr>
               in case log_new_node (w_log io) node_name node_type s2 of
                    (Some e, s3) \<Rightarrow> (Some e, s3)
                  | (None, s3) \<Rightarrow>
                      (case write_file (w_graph io) (G s3) (graph_file s3) of
                         (False, f) \<Rightarrow> (Some IOError, s3\<lparr>graph_file := f\<rparr>)
                       | (True, f) \<Rightarrow>
                           (case write_file (w_emb io) (embeddings s3) (emb_file s3) of
                              (False, f') \<Rightarrow>
                                (Some IOError, s3\<lparr>graph_file := f, emb_file := f'\<rparr>)
                            | (True, f') \<Rightarrow>
                                (None, s3\<lparr>graph_file := f, emb_file := f'\<rparr>))))"

section \<open>Nightly rebuild\<close>

text \<open>One row of \<open>jobs.csv\<close>, every cell as the string the f-string formats.\<close>

record row =
  job_id :: string
  title :: string
  company :: string
  required_skills :: string

text \<open>\<open>s.split(",")\<close>\<close>

fun split_comma :: "string \<Rightarrow> string list" where
  "split_comma [] = [[]]"
| "split_comma (c # cs) =
     (if c = CHR '','' then [] # split_comma cs
      else (case split_comma cs of [] \<Rightarrow> [[c]] | w # ws \<Rightarrow> (c # w) # ws))"

text \<open>The characters below 256 that \<open>str.strip()\<close> removes.\<close>

definition is_space :: "char \<Rightarrow> bool" where
  "is_space c = (let k = of_char c :: nat in
     (9 \<le> k \<and> k \<le> 13) \<or> (28 \<le> k \<and> k \<le> 32) \<or> k = 133 \<or> k = 160)"

definition strip :: "string \<Rightarrow> string" where
  "strip s = rev (dropWhile is_space (rev (dropWhile is_space s)))"

definition skills_of :: "row \<Rightarrow> string list" where
  "skills_of r = map strip (split_comma (required_skills r))"

text \<open>Lines 90 to 93, for the skill already stripped.\<close>

definition add_skill :: "string \<Rightarrow> string \<Rightarrow> kgraph \<Rightarrow> kgraph" where
  "add_skill job_node skill g =
     (let skill_node = ''skill_'' @ skill in
      add_edge (add_node g skill_node [(''type'', ''skill''), (''name'', skill)])
        job_node skill_node [(''relation'', ''REQUIRES_SKILL'')])"

text \<open>Lines 83 to 93: one turn of the loop over the rows.\<close>

definition add_row :: "row \<Rightarrow> kgraph \<Rightarrow> kgraph" where
  "add_row r g =
     (let job_node = ''job_'' @ job_id r;
          company_node = ''company_'' @ company r;
          g1 = add_node g job_node
                 [(''type'', ''job''), (''title'', title r), (''company'', company r)];
          g2 = add_node g1 company_node [(''type'', ''company''), (''name'', company r)];
          g3 = add_edge g2 job_node company_node [(''relation'', ''POSTED_BY'')]
      in fold (add_skill job_node) (skills_of r) g3)"

definition build_graph :: "row list \<Rightarrow> kgraph" where
  "build_graph rows = fold add_row rows empty_graph"

text \<open>
  \<open>{node: model.wv[node].tolist() for node in G_new.nodes()}\<close>: a node the model does
  not know raises KeyError.
\<close>

fun collect_embeddings :: "(string \<Rightarrow> vec option) \<Rightarrow> string list \<Rightarrow> emb_table option" where
  "collect_embeddings wv [] = Some []"
| "collect_embeddings wv (n # ns) =
     (case wv n of
        None \<Rightarrow> None
      | Some v \<Rightarrow> (case collect_embeddings wv ns of None \<Rightarrow> None | Some t \<Rightarrow> Some ((n, v) # t)))"

text \<open>
  What one run of the rebuild meets: the rows \<open>pd.read_csv\<close> returns (\<open>None\<close> when it
  raises), the vectors Node2Vec fits on a graph (\<open>None\<close> when training raises), and the
  outcome of the three writes.
\<close>

record io_retrain =
  dataset :: "row list option"
  train :: "kgraph \<Rightarrow> (string \<Rightarrow> vec option) option"
  wr_graph :: wr
  wr_emb :: wr
  wr_log :: wr

definition nightly_retrain :: "io_retrain \<Rightarrow> kg_state \<Rightarrow> error option \<times> kg_state" where
  "nightly_retrain io s =
     (case dataset io of
        None \<Rightarrow> (Some ReadError, s)
      | Some jobs \<Rightarrow>
          let G_new = build_graph jobs in
          (case train io G_new of
             None \<Rightarrow> (Some TrainError, s)
           | Some wv \<Rightarrow>
               (case collect_embeddings wv (map fst (nodes G_new)) of
                  None \<Rightarrow> (Some KeyError, s)
                | Some new_embeddings \<Rightarrow>
                    (case write_file (wr_graph io) G_new (graph_file s) of
                       (False, f) \<Rightarrow> (Some IOError, s\<lparr>graph_file := f\<rparr>)
                     | (True, f) \<Rightarrow>
                         (case write_file (wr_emb io) new_embeddings (emb_file s) of
                            (False, f') \<Rightarrow> (Some IOError, s\<lparr>graph_file := f, emb_file := f'\<rparr>)
                          | (True, f') \<Rightarrow>
                              let s1 = s\<lparr>G := G_new, embeddings := new_embeddings,
                                         graph_file := f, emb_file := f'\<rparr>
                              in (case write_file (wr_log io) [] (log_file s1) of
                                    (False, l) \<Rightarrow> (Some IOError, s1\<lparr>log_file := l\<rparr>)
                                  | (True, l) \<Rightarrow> (None, s1\<lparr>log_file := l\<rparr>)))))))"

section \<open>Scheduler loop\<close>

text \<open>
  Lines 115 to 121: \<open>schedule.run_pending()\<close> calls the one registered job when it is
  due, and an exception of the job leaves \<open>run_pending\<close> and the \<open>while True\<close> loop, which
  has no handler. A tick is one turn of the loop: whether the job is due, and what the
  rebuild meets then. The loop has no exit of its own: on a finite list of ticks the
  result \<open>None\<close> says that it is still running.
\<close>

record tick =
  due :: bool
  env :: io_retrain

fun run_loop :: "tick list \<Rightarrow> kg_state \<Rightarrow> error option \<times> kg_state" where
  "run_loop [] s = (None, s)"
| "run_loop (t # ts) s =
     (if due t
      then (case nightly_retrain (env t) s of
              (Some e, s') \<Rightarrow> (Some e, s')
            | (None, s') \<Rightarrow> run_loop ts s')
      else run_loop ts s)"

definition init_state :: kg_state where
  "init_state = \<lparr>G = empty_graph, embeddings = [], graph_file = None, emb_file = None,
                  log_file = Some []\<rparr>"

section \<open>Example inputs\<close>

text \<open>A generator whose every draw is 0.\<close>

definition no_noise :: "nat \<Rightarrow> real" where
  "no_noise i = 0"

definition ok_insert :: io_insert where
  "ok_insert = \<lparr>w_log = WOk, w_graph = WOk, w_emb = WOk\<rparr>"

text \<open>A store that knows two skills, each with a 32-dimensional embedding.\<close>

definition two_skill_state :: kg_state where
  "two_skill_state =
     \<lparr>G = \<lparr>nodes = [(''skill_Go'', [(''type'', ''skill'')]),
                     (''skill_Rust'', [(''type'', ''skill'')])],
            edges = []\<rparr>,
      embeddings = [(''skill_Go'', replicate 32 1), (''skill_Rust'', replicate 32 4)],
      graph_file = None, emb_file = None, log_file = Some []\<rparr>"

section \<open>What the dataset prescribes\<close>

text \<open>
  The node ids and the edges that the rows of a dataset stand for: a node for the job of
  each row, one for its company and one for each of its skills; an edge from the job
  to its company and one from the job to each of its skills.
\<close>

definition job_key :: "row \<Rightarrow> string" where
  "job_key r = ''job_'' @ job_id r"

definition company_key :: "row \<Rightarrow> string" where
  "company_key r = ''company_'' @ company r"

definition skill_key :: "string \<Rightarrow> string" where
  "skill_key sk = ''skill_'' @ sk"

definition dataset_nodes :: "row list \<Rightarrow> string set" where
  "dataset_nodes rows =
     job_key ` set rows \<union> company_key ` set rows
       \<union> (\<Union>r\<in>set rows. skill_key ` set (skills_of r))"




text \<open>A dataset of three rows: two companies, three skills, five job-skill pairs.\<close>

definition jobs3 :: "row list" where
  "jobs3 =
     [\<lparr>job_id = ''1'', title = ''Backend Developer'', company = ''Acme'',
        required_skills = ''Go, Rust''\<rparr>,
      \<lparr>job_id = ''2'', title = ''Data Engineer'', company = ''Acme'',
        required_skills = ''Python,Go''\<rparr>,
      \<lparr>job_id = ''3'', title = ''SRE'', company = ''Initech'',
        required_skills = '' Go ''\<rparr>]"

text \<open>
  A run of the rebuild where everything works: the dataset is \<open>jobs3\<close>, the model knows
  every node of the graph it was fitted on, and the three writes succeed.
\<close>

definition ok_retrain :: io_retrain where
  "ok_retrain =
     \<lparr>dataset = Some jobs3,
      train = (\<lambda>g. Some (\<lambda>n. if has_node g n then Some (replicate 32 (1 / 2)) else None)),
      wr_graph = WOk, wr_emb = WOk, wr_log = WOk\<rparr>"

text \<open>A run of the rebuild where \<open>pd.read_csv\<close> raises.\<close>

definition read_failure :: io_retrain where
  "read_failure = ok_retrain\<lparr>dataset := None\<rparr>"

text \<open>The store after \<open>job_42\<close> was inserted next to the two known skills.\<close>

definition inserted_state :: kg_state where
  "inserted_state =
     snd (add_node_with_neighbors ok_insert no_noise ''job_42'' ''job''
            [''skill_Go'', ''skill_Rust''] two_skill_state)"

text \<open>The two-skill store with both snapshot files in step with the memory.\<close>

definition persisted_state :: kg_state where
  "persisted_state =
     two_skill_state\<lparr>graph_file := Some (G two_skill_state),
                      emb_file := Some (embeddings two_skill_state)\<rparr>"

text \<open>An insert whose write of the graph file fails, and one whose write of the
  embeddings file fails.\<close>

definition graph_write_failure :: io_insert where
  "graph_write_failure = \<lparr>w_log = WOk, w_graph = WFailOpen, w_emb = WOk\<rparr>"

definition emb_write_failure :: io_insert where
  "emb_write_failure = \<lparr>w_log = WOk, w_graph = WOk, w_emb = WFailOpen\<rparr>"

text \<open>Two turns of the scheduler loop, the rebuild due in both: the first meets a
  dataset that cannot be read, the second would meet no failure.\<close>

definition failing_then_fine :: "tick list" where
  "failing_then_fine = [\<lparr>due = True, env = read_failure\<rparr>, \<lparr>due = True, env = ok_retrain\<rparr>]"

text \<open>A run of the rebuild whose write of the embeddings file fails.\<close>

definition retrain_emb_failure :: io_retrain where
  "retrain_emb_failure = ok_retrain\<lparr>wr_emb := WFailDump\<rparr>"

section \<open>Auxiliary facts\<close>





lemma insert_invalid_type:
  "node_type \<notin> {''job'', ''skill'', ''company''} \<Longrightarrow>
   add_node_with_neighbors io draw node_name node_type neighbors s = (Some ValueError, s)"
  by (simp add: add_node_with_neighbors_def)

lemma insert_G:
  "node_type \<in> {''job'', ''skill'', ''company''} \<Longrightarrow>
   G (snd (add_node_with_neighbors io draw node_name node_type neighbors s))
     = insert_graph node_name node_type neighbors (G s)"
  by (auto simp: add_node_with_neighbors_def insert_graph_def Let_def log_new_node_def
      write_file_def split: option.splits prod.splits wr.splits bool.splits)


lemma insert_ok:
  "node_type \<in> {''job'', ''skill'', ''company''} \<Longrightarrow>
   approx_embedding draw (embeddings s) neighbors = Some v \<Longrightarrow>
   log_file s = Some entries \<Longrightarrow>
   w_log io = WOk \<Longrightarrow> w_graph io = WOk \<Longrightarrow> w_emb io = WOk \<Longrightarrow>
   add_node_with_neighbors io draw node_name node_type neighbors s
     = (None, s\<lparr>G := insert_graph node_name node_type neighbors (G s),
                 embeddings := AList.update node_name v (embeddings s),
                 graph_file := Some (insert_graph node_name node_type neighbors (G s)),
                 emb_file := Some (AList.update node_name v (embeddings s)),
                 log_file := Some (entries @ [(node_name, node_type)])\<rparr>)"
  by (auto simp: add_node_with_neighbors_def insert_graph_def Let_def log_new_node_def
      write_file_def split: option.splits prod.splits wr.splits bool.splits)













lemma has_node_iff: "has_node g n \<longleftrightarrow> n \<in> fst ` set (nodes g)"
  by (simp add: has_node_def map_of_eq_None_iff)

lemma node_keys_add_node: "fst ` set (nodes (add_node g n a)) = insert n (fst ` set (nodes g))"
  by (simp add: add_node_def dom_update)

lemma node_distinct_add_node:
  "distinct (map fst (nodes g)) \<Longrightarrow> distinct (map fst (nodes (add_node g n a)))"
  by (simp add: add_node_def distinct_update)

lemma nodes_add_edge:
  "nodes (add_edge g u v a)
     = nodes (let g1 = (if has_node g u then g else add_node g u [])
              in (if has_node g1 v then g1 else add_node g1 v []))"
  by (simp add: add_edge_def Let_def)

lemma node_keys_add_edge:
  "fst ` set (nodes (add_edge g u v a)) = insert u (insert v (fst ` set (nodes g)))"
  by (auto simp: nodes_add_edge Let_def has_node_iff node_keys_add_node)

lemma node_distinct_add_edge:
  "distinct (map fst (nodes g)) \<Longrightarrow> distinct (map fst (nodes (add_edge g u v a)))"
  by (simp add: nodes_add_edge Let_def node_distinct_add_node)

lemma node_keys_add_skill:
  "fst ` set (nodes (add_skill jn sk g))
     = insert jn (insert (skill_key sk) (fst ` set (nodes g)))"
  by (auto simp: add_skill_def Let_def node_keys_add_edge node_keys_add_node skill_key_def)


lemma node_distinct_add_skill:
  "distinct (map fst (nodes g)) \<Longrightarrow> distinct (map fst (nodes (add_skill jn sk g)))"
  by (simp add: add_skill_def Let_def node_distinct_add_edge node_distinct_add_node)


lemma node_keys_fold_add_skill:
  "jn \<in> fst ` set (nodes g) \<Longrightarrow>
   fst ` set (nodes (fold (add_skill jn) sks g)) = fst ` set (nodes g) \<union> skill_key ` set sks"
  by (induction sks arbitrary: g) (auto simp: node_keys_add_skill)


lemma node_distinct_fold_add_skill:
  "distinct (map fst (nodes g)) \<Longrightarrow> distinct (map fst (nodes (fold (add_skill jn) sks g)))"
  by (induction sks arbitrary: g) (auto simp: node_distinct_add_skill)


lemma node_keys_add_row:
  "fst ` set (nodes (add_row r g))
     = fst ` set (nodes g) \<union> {job_key r, company_key r} \<union> skill_key ` set (skills_of r)"
  by (auto simp: add_row_def Let_def node_keys_fold_add_skill node_keys_add_edge
      node_keys_add_node job_key_def company_key_def)


lemma node_distinct_add_row:
  "distinct (map fst (nodes g)) \<Longrightarrow> distinct (map fst (nodes (add_row r g)))"
  by (simp add: add_row_def Let_def node_distinct_fold_add_skill node_distinct_add_edge
      node_distinct_add_node)


lemma node_keys_fold_add_row:
  "fst ` set (nodes (fold add_row rows g)) = fst ` set (nodes g) \<union> dataset_nodes rows"
  by (induction rows arbitrary: g) (auto simp: node_keys_add_row dataset_nodes_def)


lemma node_distinct_fold_add_row:
  "distinct (map fst (nodes g)) \<Longrightarrow> distinct (map fst (nodes (fold add_row rows g)))"
  by (induction rows arbitrary: g) (auto simp: node_distinct_add_row)


lemma build_graph_nodes:
  "set (map fst (nodes (build_graph rows))) = dataset_nodes rows"
  "distinct (map fst (nodes (build_graph rows)))"
  by (simp_all add: build_graph_def node_keys_fold_add_row node_distinct_fold_add_row
      empty_graph_def)


lemma job_key_eq [simp]: "job_key r = job_key r' \<longleftrightarrow> job_id r = job_id r'"
  by (simp add: job_key_def)

lemma skill_key_eq [simp]: "skill_key a = skill_key b \<longleftrightarrow> a = b"
  by (simp add: skill_key_def)

lemma company_key_eq [simp]: "company_key r = company_key r' \<longleftrightarrow> company r = company r'"
  by (simp add: company_key_def)

lemma key_kinds_differ [simp]:
  "job_key r \<noteq> company_key r'" "company_key r' \<noteq> job_key r"
  "job_key r \<noteq> skill_key a" "skill_key a \<noteq> job_key r"
  "company_key r \<noteq> skill_key a" "skill_key a \<noteq> company_key r"
  by (simp_all add: job_key_def company_key_def skill_key_def)











lemma upd_attrs_single: "upd_attrs old [(k, v)] = AList.update k v (case old of None \<Rightarrow> [] | Some d \<Rightarrow> d)"
  by (simp add: upd_attrs_def dict_update_def split: option.splits)










lemma collect_embeddings_keys:
  "collect_embeddings wv ns = Some t \<Longrightarrow> map fst t = ns"
  by (induction ns arbitrary: t) (auto split: option.splits)

lemma collect_embeddings_vals:
  "collect_embeddings wv ns = Some t \<Longrightarrow> n \<in> set ns \<Longrightarrow> map_of t n = wv n \<and> wv n \<noteq> None"
proof (induction ns arbitrary: t)
  case Nil
  then show ?case by simp
next
  case (Cons m ns)
  from Cons.prems(1) obtain v t' where t: "wv m = Some v" "collect_embeddings wv ns = Some t'"
    "t = (m, v) # t'"
    by (auto split: option.splits)
  show ?case
  proof (cases "n = m")
    case True
    then show ?thesis using t by simp
  next
    case False
    then have "n \<in> set ns" using Cons.prems(2) by simp
    then show ?thesis using Cons.IH[OF t(2)] t(3) False by simp
  qed
qed

lemma collect_embeddings_total:
  "\<forall>n\<in>set ns. wv n \<noteq> None \<Longrightarrow> \<exists>t. collect_embeddings wv ns = Some t"
  by (induction ns) auto

lemma nightly_retrain_success:
  assumes "nightly_retrain io s = (None, s')"
  shows "\<exists>rows wv ne. dataset io = Some rows \<and> train io (build_graph rows) = Some wv
           \<and> collect_embeddings wv (map fst (nodes (build_graph rows))) = Some ne
           \<and> s' = s\<lparr>G := build_graph rows, embeddings := ne,
                      graph_file := Some (build_graph rows), emb_file := Some ne,
                      log_file := Some []\<rparr>"
  using assms
  by (auto simp: nightly_retrain_def Let_def write_file_def
      split: option.splits prod.splits wr.splits bool.splits)

lemma nightly_retrain_ok:
  assumes "dataset io = Some rows" and "train io (build_graph rows) = Some wv"
    and "\<forall>n\<in>set (map fst (nodes (build_graph rows))). wv n \<noteq> None"
    and "wr_graph io = WOk" and "wr_emb io = WOk" and "wr_log io = WOk"
  shows "fst (nightly_retrain io s) = None"
proof -
  obtain ne where "collect_embeddings wv (map fst (nodes (build_graph rows))) = Some ne"
    using collect_embeddings_total[OF assms(3)] by blast
  then show ?thesis
    using assms by (simp add: nightly_retrain_def Let_def write_file_def)
qed

lemma nightly_retrain_read_failure:
  "dataset io = None \<Longrightarrow> nightly_retrain io s = (Some ReadError, s)"
  by (simp add: nightly_retrain_def)

lemma nightly_retrain_train_failure:
  "dataset io = Some rows \<Longrightarrow> train io (build_graph rows) = None \<Longrightarrow>
   nightly_retrain io s = (Some TrainError, s)"
  by (simp add: nightly_retrain_def)

lemma ok_retrain_succeeds: "fst (nightly_retrain ok_retrain s) = None"
  by (rule nightly_retrain_ok[of _ jobs3])
     (force simp: ok_retrain_def has_node_def map_of_eq_None_iff)+

lemma job_42_not_in_jobs3: "''job_42'' \<notin> dataset_nodes jobs3"
  by (auto simp: dataset_nodes_def jobs3_def job_key_def company_key_def skill_key_def)

lemma inserted_state_has_job_42: "get_node inserted_state ''job_42'' = Some [(''type'', ''job'')]"
  by code_simp

lemma approx_two_skills:
  "approx_embedding no_noise (embeddings persisted_state) [''skill_Go'', ''skill_Rust'']
     = Some (replicate 32 (5 / 2))"
  by (simp add: approx_embedding_def persisted_state_def two_skill_state_def mean_axis0_def
      numeral_eq_Suc)

lemma collect_jobs3:
  "collect_embeddings (\<lambda>n. if has_node (build_graph jobs3) n then Some (replicate 32 (1 / 2)) else None)
     (map fst (nodes (build_graph jobs3)))
   = Some (the (collect_embeddings
       (\<lambda>n. if has_node (build_graph jobs3) n then Some (replicate 32 (1 / 2)) else None)
       (map fst (nodes (build_graph jobs3)))))"
proof -
  have "\<exists>t. collect_embeddings
       (\<lambda>n. if has_node (build_graph jobs3) n then Some (replicate 32 (1 / 2)) else None)
       (map fst (nodes (build_graph jobs3))) = Some t"
    by (rule collect_embeddings_total) (force simp: has_node_def map_of_eq_None_iff)
  then show ?thesis by auto
qed





lemma nodes_map_add_node:
  "map_of (nodes (add_node g n a)) = (map_of (nodes g))(n \<mapsto> upd_attrs (map_of (nodes g) n) a)"
  by (simp add: add_node_def update_conv')

lemma has_node_add_node: "has_node (add_node g n a) m \<longleftrightarrow> m = n \<or> has_node g m"
  by (simp add: has_node_def nodes_map_add_node)

lemma node_attr_add_edge:
  "has_node g n \<or> (n \<noteq> u \<and> n \<noteq> v) \<Longrightarrow>
   map_of (nodes (add_edge g u v a)) n = map_of (nodes g) n"
  by (auto simp: nodes_add_edge Let_def nodes_map_add_node has_node_add_node)

lemma has_node_add_edge: "has_node (add_edge g u v a) m \<longleftrightarrow> m = u \<or> m = v \<or> has_node g m"
  using node_keys_add_edge[of g u v a] by (auto simp: has_node_iff)

lemma node_attr_infer_neighbor:
  "has_node g n \<or> n \<noteq> m \<Longrightarrow> map_of (nodes (infer_neighbor g m)) n = map_of (nodes g) n"
  by (auto simp: infer_neighbor_def nodes_map_add_node)

lemma has_node_infer_neighbor: "has_node g n \<Longrightarrow> has_node (infer_neighbor g m) n"
  by (simp add: infer_neighbor_def has_node_add_node)

lemma node_attr_connect_neighbor:
  assumes "has_node g n \<or> (n \<noteq> nm \<and> n \<noteq> m)"
  shows "map_of (nodes (connect_neighbor nm m g)) n = map_of (nodes g) n"
proof -
  have "has_node (infer_neighbor g m) n \<or> (n \<noteq> nm \<and> n \<noteq> m)"
    using assms has_node_infer_neighbor by blast
  then have "map_of (nodes (connect_neighbor nm m g)) n = map_of (nodes (infer_neighbor g m)) n"
    unfolding connect_neighbor_def by (rule node_attr_add_edge)
  also have "\<dots> = map_of (nodes g) n"
    using assms by (intro node_attr_infer_neighbor) blast
  finally show ?thesis .
qed

lemma has_node_connect_neighbor:
  "has_node (connect_neighbor nm m g) n \<longleftrightarrow> n = nm \<or> n = m \<or> has_node g n"
  by (auto simp: connect_neighbor_def has_node_add_edge infer_neighbor_def has_node_add_node)

lemma node_attr_fold_connect:
  "has_node g n \<Longrightarrow> map_of (nodes (fold (connect_neighbor nm) ns g)) n = map_of (nodes g) n"
proof (induction ns arbitrary: g)
  case Nil
  then show ?case by simp
next
  case (Cons m ns)
  have "has_node (connect_neighbor nm m g) n"
    using Cons.prems by (simp add: has_node_connect_neighbor)
  then show ?case
    using Cons.IH[of "connect_neighbor nm m g"] Cons.prems
    by (simp add: node_attr_connect_neighbor)
qed

lemma upd_attrs_type: "map_of (upd_attrs old [(''type'', ty)]) ''type'' = Some ty"
  by (simp add: upd_attrs_single update_conv')

lemma insert_graph_own_type:
  "\<exists>a. map_of (nodes (insert_graph nm ty ns g)) nm = Some a \<and> map_of a ''type'' = Some ty"
proof -
  let ?g1 = "add_node g nm [(''type'', ty)]"
  have "has_node ?g1 nm" by (simp add: has_node_add_node)
  then have "map_of (nodes (insert_graph nm ty ns g)) nm = map_of (nodes ?g1) nm"
    unfolding insert_graph_def by (rule node_attr_fold_connect)
  then show ?thesis by (simp add: nodes_map_add_node upd_attrs_type)
qed

lemma startswithD: "startswith s p \<Longrightarrow> \<exists>rest. s = p @ rest"
  unfolding startswith_def by (metis append_take_drop_id)

lemma infer_neighbor_recognised:
  assumes "\<not> has_node g n"
  shows "startswith n ''job_'' \<Longrightarrow> infer_neighbor g n = add_node g n [(''type'', ''job'')]"
    and "startswith n ''skill_'' \<Longrightarrow> infer_neighbor g n = add_node g n [(''type'', ''skill'')]"
    and "startswith n ''company_'' \<Longrightarrow>
         infer_neighbor g n = add_node g n [(''type'', ''company'')]"
proof -
  show "startswith n ''job_'' \<Longrightarrow> infer_neighbor g n = add_node g n [(''type'', ''job'')]"
    using assms by (simp add: infer_neighbor_def)
  show "infer_neighbor g n = add_node g n [(''type'', ''skill'')]" if sw: "startswith n ''skill_''"
  proof -
    obtain rest where "n = ''skill_'' @ rest" using startswithD[OF sw] by blast
    then show ?thesis using assms by (simp add: infer_neighbor_def startswith_def)
  qed
  show "infer_neighbor g n = add_node g n [(''type'', ''company'')]"
    if sw: "startswith n ''company_''"
  proof -
    obtain rest where "n = ''company_'' @ rest" using startswithD[OF sw] by blast
    then show ?thesis using assms by (simp add: infer_neighbor_def startswith_def)
  qed
qed

lemma infer_neighbor_typed:
  assumes "\<not> has_node g n" and "p \<in> {''job'', ''skill'', ''company''}"
    and "startswith n (p @ ''_'')"
  shows "map_of (nodes (infer_neighbor g n)) n = Some [(''type'', p)]"
proof -
  have "infer_neighbor g n = add_node g n [(''type'', p)]"
    using assms infer_neighbor_recognised[OF assms(1)] by auto
  moreover have "map_of (nodes g) n = None" using assms(1) by (simp add: has_node_def)
  ultimately show ?thesis
    by (simp add: nodes_map_add_node upd_attrs_single)
qed

lemma fold_connect_new_typed:
  assumes "n \<in> set ns" and "n \<noteq> nm" and "\<not> has_node g n"
    and "p \<in> {''job'', ''skill'', ''company''}" and "startswith n (p @ ''_'')"
  shows "map_of (nodes (fold (connect_neighbor nm) ns g)) n = Some [(''type'', p)]"
  using assms(1,3)
proof (induction ns arbitrary: g)
  case Nil
  then show ?case by simp
next
  case (Cons m ns)
  show ?case
  proof (cases "m = n")
    case True
    have t: "map_of (nodes (infer_neighbor g n)) n = Some [(''type'', p)]"
      using infer_neighbor_typed[OF Cons.prems(2) assms(4,5)] .
    then have "has_node (infer_neighbor g n) n" by (simp add: has_node_def)
    then have "map_of (nodes (connect_neighbor nm n g)) n = Some [(''type'', p)]"
      unfolding connect_neighbor_def using t by (simp add: node_attr_add_edge)
    moreover from this have "has_node (connect_neighbor nm n g) n" by (simp add: has_node_def)
    ultimately show ?thesis
      using True node_attr_fold_connect[of "connect_neighbor nm n g" n nm ns] by simp
  next
    case False
    then have "n \<in> set ns" using Cons.prems(1) by simp
    moreover have "\<not> has_node (connect_neighbor nm m g) n"
      using False assms(2) Cons.prems(2) by (simp add: has_node_connect_neighbor)
    ultimately show ?thesis using Cons.IH by simp
  qed
qed

section \<open>The claims\<close>




text \<open>
  Claim C2, as stated, fails: when the write of the graph file fails, the call raises,
  yet \<open>job_42\<close>, which was not in the store, is found in memory afterwards and its
  entry is in the ChangeLog file.
\<close>

theorem insert_rollback_counterexample:
  "fst (add_node_with_neighbors graph_write_failure no_noise ''job_42'' ''job''
          [''skill_Go'', ''skill_Rust''] persisted_state) = Some IOError
   \<and> get_node persisted_state ''job_42'' = None
   \<and> get_node (snd (add_node_with_neighbors graph_write_failure no_noise ''job_42'' ''job''
          [''skill_Go'', ''skill_Rust''] persisted_state)) ''job_42'' = Some [(''type'', ''job'')]
   \<and> log_file (snd (add_node_with_neighbors graph_write_failure no_noise ''job_42'' ''job''
          [''skill_Go'', ''skill_Rust''] persisted_state)) = Some [(''job_42'', ''job'')]"
  by code_simp

text \<open>
  Claim C2, amended. An insert is a sequence of steps with no rollback. For an accepted
  type, a computed embedding and a readable ChangeLog file: the graph and the embedding
  table in memory are changed whatever the writes do; then the ChangeLog file, the graph
  file and the embeddings file are written in this order; the first write that fails
  raises IOError, the files written before it keep what was written and the files
  after it are untouched; only when the three writes succeed does the call return
  without error, with node, edges, embedding and ChangeLog entry all persisted.
\<close>

theorem insert_steps_not_atomic:
  assumes ty: "node_type \<in> {''job'', ''skill'', ''company''}"
    and emb: "approx_embedding draw (embeddings s) neighbors = Some v"
    and lg: "log_file s = Some entries"
    and r: "add_node_with_neighbors io draw node_name node_type neighbors s = (res, s')"
  shows "G s' = insert_graph node_name node_type neighbors (G s)
       \<and> embeddings s' = AList.update node_name v (embeddings s)
       \<and> (w_log io \<noteq> WOk \<longrightarrow>
            res = Some IOError
            \<and> log_file s' = (if w_log io = WFailOpen then Some entries else None)
            \<and> graph_file s' = graph_file s \<and> emb_file s' = emb_file s)
       \<and> (w_log io = WOk \<longrightarrow> log_file s' = Some (entries @ [(node_name, node_type)]))
       \<and> (w_log io = WOk \<and> w_graph io \<noteq> WOk \<longrightarrow>
            res = Some IOError
            \<and> graph_file s' = (if w_graph io = WFailOpen then graph_file s else None)
            \<and> emb_file s' = emb_file s)
       \<and> (w_log io = WOk \<and> w_graph io = WOk \<longrightarrow> graph_file s' = Some (G s'))
       \<and> (w_log io = WOk \<and> w_graph io = WOk \<and> w_emb io \<noteq> WOk \<longrightarrow>
            res = Some IOError
            \<and> emb_file s' = (if w_emb io = WFailOpen then emb_file s else None))
       \<and> (w_log io = WOk \<and> w_graph io = WOk \<and> w_emb io = WOk \<longrightarrow>
            res = None \<and> emb_file s' = Some (embeddings s'))"
  using assms
  by (cases "w_log io"; cases "w_graph io"; cases "w_emb io")
     (auto simp: add_node_with_neighbors_def Let_def log_new_node_def write_file_def)

theorem insert_steps_not_atomic_witness:
  "''job'' \<in> {''job'', ''skill'', ''company''}
   \<and> approx_embedding no_noise (embeddings persisted_state) [''skill_Go'', ''skill_Rust'']
       = Some (replicate 32 (5 / 2))
   \<and> log_file persisted_state = Some []
   \<and> fst (add_node_with_neighbors graph_write_failure no_noise ''job_42'' ''job''
          [''skill_Go'', ''skill_Rust''] persisted_state) = Some IOError
   \<and> embeddings (snd (add_node_with_neighbors graph_write_failure no_noise ''job_42'' ''job''
          [''skill_Go'', ''skill_Rust''] persisted_state))
       = AList.update ''job_42'' (replicate 32 (5 / 2)) (embeddings persisted_state)
   \<and> log_file (snd (add_node_with_neighbors graph_write_failure no_noise ''job_42'' ''job''
          [''skill_Go'', ''skill_Rust''] persisted_state)) = Some [(''job_42'', ''job'')]
   \<and> graph_file (snd (add_node_with_neighbors graph_write_failure no_noise ''job_42'' ''job''
          [''skill_Go'', ''skill_Rust''] persisted_state)) = graph_file persisted_state"
proof -
  have ty: "''job'' \<in> {''job'', ''skill'', ''company''}" by simp
  have lg: "log_file persisted_state = Some []"
    by (simp add: persisted_state_def two_skill_state_def)
  have io: "w_log graph_write_failure = WOk" "w_graph graph_write_failure = WFailOpen"
    by (simp_all add: graph_write_failure_def)
  show ?thesis
    using insert_steps_not_atomic[OF ty approx_two_skills lg surjective_pairing,
        of graph_write_failure "''job_42''"] approx_two_skills lg io
    by simp
qed

text \<open>
  Claim C3, as stated, fails: when the write of the embeddings file fails during an
  insert, the graph file already holds the new graph with \<open>job_42\<close>, while the
  embeddings file still holds the old table, which has no entry for \<open>job_42\<close>.
\<close>

theorem snapshot_split_counterexample:
  "fst (add_node_with_neighbors emb_write_failure no_noise ''job_42'' ''job''
          [''skill_Go'', ''skill_Rust''] persisted_state) = Some IOError
   \<and> graph_file (snd (add_node_with_neighbors emb_write_failure no_noise ''job_42'' ''job''
          [''skill_Go'', ''skill_Rust''] persisted_state))
       = Some (G (snd (add_node_with_neighbors emb_write_failure no_noise ''job_42'' ''job''
          [''skill_Go'', ''skill_Rust''] persisted_state)))
   \<and> get_node (snd (add_node_with_neighbors emb_write_failure no_noise ''job_42'' ''job''
          [''skill_Go'', ''skill_Rust''] persisted_state)) ''job_42'' = Some [(''type'', ''job'')]
   \<and> emb_file (snd (add_node_with_neighbors emb_write_failure no_noise ''job_42'' ''job''
          [''skill_Go'', ''skill_Rust''] persisted_state)) = Some (embeddings two_skill_state)
   \<and> map_of (embeddings two_skill_state) ''job_42'' = None"
  by code_simp

text \<open>
  Claim C3, amended. The insert and the rebuild both persist the snapshot by two
  separate writes, the graph file first and the embeddings file second. Once the
  graph write has succeeded the graph file holds the new graph; if the embeddings write
  succeeds too, the embeddings file holds the new table; if it fails, the call raises
  IOError and the embeddings file is as before or unreadable, so that the two files
  disagree; in the rebuild the memory then still holds the old graph and table.
\<close>

theorem snapshot_two_writes:
  "(node_type \<in> {''job'', ''skill'', ''company''}
      \<and> approx_embedding draw (embeddings s) neighbors = Some v
      \<and> log_file s \<noteq> None \<and> w_log io = WOk \<and> w_graph io = WOk
      \<and> add_node_with_neighbors io draw node_name node_type neighbors s = (res, s') \<longrightarrow>
        graph_file s' = Some (insert_graph node_name node_type neighbors (G s))
        \<and> (w_emb io = WOk \<longrightarrow>
              res = None \<and> emb_file s' = Some (AList.update node_name v (embeddings s)))
        \<and> (w_emb io \<noteq> WOk \<longrightarrow>
              res = Some IOError
              \<and> emb_file s' = (if w_emb io = WFailOpen then emb_file s else None)))
   \<and> (dataset rio = Some rows \<and> train rio (build_graph rows) = Some wv
      \<and> collect_embeddings wv (map fst (nodes (build_graph rows))) = Some new_embeddings
      \<and> wr_graph rio = WOk
      \<and> nightly_retrain rio s = (res2, s2) \<longrightarrow>
        graph_file s2 = Some (build_graph rows)
        \<and> (wr_emb rio = WOk \<longrightarrow> emb_file s2 = Some new_embeddings)
        \<and> (wr_emb rio \<noteq> WOk \<longrightarrow>
              res2 = Some IOError
              \<and> emb_file s2 = (if wr_emb rio = WFailOpen then emb_file s else None)
              \<and> G s2 = G s \<and> embeddings s2 = embeddings s))"
proof -
  have ins: "graph_file s' = Some (insert_graph node_name node_type neighbors (G s))
        \<and> (w_emb io = WOk \<longrightarrow>
              res = None \<and> emb_file s' = Some (AList.update node_name v (embeddings s)))
        \<and> (w_emb io \<noteq> WOk \<longrightarrow>
              res = Some IOError
              \<and> emb_file s' = (if w_emb io = WFailOpen then emb_file s else None))"
    if "node_type \<in> {''job'', ''skill'', ''company''}"
      "approx_embedding draw (embeddings s) neighbors = Some v"
      "log_file s \<noteq> None" "w_log io = WOk" "w_graph io = WOk"
      "add_node_with_neighbors io draw node_name node_type neighbors s = (res, s')"
    using that
    by (cases "w_emb io")
       (auto simp: add_node_with_neighbors_def Let_def log_new_node_def write_file_def)
  have reb: "graph_file s2 = Some (build_graph rows)
        \<and> (wr_emb rio = WOk \<longrightarrow> emb_file s2 = Some new_embeddings)
        \<and> (wr_emb rio \<noteq> WOk \<longrightarrow>
              res2 = Some IOError
              \<and> emb_file s2 = (if wr_emb rio = WFailOpen then emb_file s else None)
              \<and> G s2 = G s \<and> embeddings s2 = embeddings s)"
    if "dataset rio = Some rows" "train rio (build_graph rows) = Some wv"
      "collect_embeddings wv (map fst (nodes (build_graph rows))) = Some new_embeddings"
      "wr_graph rio = WOk" "nightly_retrain rio s = (res2, s2)"
    using that
    by (cases "wr_emb rio"; cases "wr_log rio")
       (auto simp: nightly_retrain_def Let_def write_file_def)
  show ?thesis using ins reb by blast
qed

theorem snapshot_two_writes_witness:
  "(''job'' \<in> {''job'', ''skill'', ''company''}
      \<and> approx_embedding no_noise (embeddings persisted_state) [''skill_Go'', ''skill_Rust'']
          = Some (replicate 32 (5 / 2))
      \<and> log_file persisted_state \<noteq> None
      \<and> w_log emb_write_failure = WOk \<and> w_graph emb_write_failure = WOk)
   \<and> graph_file (snd (add_node_with_neighbors emb_write_failure no_noise ''job_42'' ''job''
          [''skill_Go'', ''skill_Rust''] persisted_state))
       = Some (insert_graph ''job_42'' ''job'' [''skill_Go'', ''skill_Rust''] (G persisted_state))
   \<and> fst (add_node_with_neighbors emb_write_failure no_noise ''job_42'' ''job''
          [''skill_Go'', ''skill_Rust''] persisted_state) = Some IOError
   \<and> emb_file (snd (add_node_with_neighbors emb_write_failure no_noise ''job_42'' ''job''
          [''skill_Go'', ''skill_Rust''] persisted_state)) = emb_file persisted_state
   \<and> (dataset retrain_emb_failure = Some jobs3 \<and> wr_graph retrain_emb_failure = WOk)
   \<and> graph_file (snd (nightly_retrain retrain_emb_failure persisted_state))
       = Some (build_graph jobs3)
   \<and> fst (nightly_retrain retrain_emb_failure persisted_state) = Some IOError
   \<and> emb_file (snd (nightly_retrain retrain_emb_failure persisted_state)) = None
   \<and> G (snd (nightly_retrain retrain_emb_failure persisted_state)) = G persisted_state"
proof -
  have lg: "log_file persisted_state \<noteq> None"
    by (simp add: persisted_state_def two_skill_state_def)
  have io: "w_log emb_write_failure = WOk" "w_graph emb_write_failure = WOk"
    "w_emb emb_write_failure = WFailOpen"
    by (simp_all add: emb_write_failure_def)
  have rio: "dataset retrain_emb_failure = Some jobs3" "wr_graph retrain_emb_failure = WOk"
    "wr_emb retrain_emb_failure = WFailDump"
    "train retrain_emb_failure (build_graph jobs3)
       = Some (\<lambda>n. if has_node (build_graph jobs3) n then Some (replicate 32 (1 / 2)) else None)"
    by (simp_all add: retrain_emb_failure_def ok_retrain_def)
  show ?thesis
    using snapshot_two_writes[of "''job''" no_noise persisted_state "[''skill_Go'', ''skill_Rust'']"
        "replicate 32 (5 / 2)" emb_write_failure "''job_42''"
        "fst (add_node_with_neighbors emb_write_failure no_noise ''job_42'' ''job''
          [''skill_Go'', ''skill_Rust''] persisted_state)"
        "snd (add_node_with_neighbors emb_write_failure no_noise ''job_42'' ''job''
          [''skill_Go'', ''skill_Rust''] persisted_state)"
        retrain_emb_failure jobs3
        "\<lambda>n. if has_node (build_graph jobs3) n then Some (replicate 32 (1 / 2)) else None"
        "the (collect_embeddings
          (\<lambda>n. if has_node (build_graph jobs3) n then Some (replicate 32 (1 / 2)) else None)
          (map fst (nodes (build_graph jobs3))))"
        "fst (nightly_retrain retrain_emb_failure persisted_state)"
        "snd (nightly_retrain retrain_emb_failure persisted_state)"]
      approx_two_skills lg io rio collect_jobs3
    by simp
qed

text \<open>
  Claim C4, as stated, fails: when the rebuild cannot read the dataset, the error
  leaves the scheduler loop, which ends there; the next turn, where the rebuild would
  succeed, never runs, so that the store and its ChangeLog are as before the first turn.
\<close>

theorem scheduler_stops_on_failure_counterexample:
  "run_loop failing_then_fine inserted_state = (Some ReadError, inserted_state)"
  by (simp add: failing_then_fine_def read_failure_def nightly_retrain_read_failure)

text \<open>
  Claim C4, amended. When the rebuild fails on the read of the dataset or in training,
  it raises before anything was changed: memory, snapshot files and ChangeLog file are
  as before. Nothing catches the error: a turn of the scheduler loop where the rebuild
  is due and fails so ends the loop with that error, and no later turn runs.
\<close>

theorem rebuild_failure_containment:
  assumes "dataset io = None \<or> (\<exists>rows. dataset io = Some rows \<and> train io (build_graph rows) = None)"
  shows "snd (nightly_retrain io s) = s
       \<and> fst (nightly_retrain io s) \<in> {Some ReadError, Some TrainError}
       \<and> (due t \<and> env t = io \<longrightarrow> run_loop (t # ts) s = (fst (nightly_retrain io s), s))"
proof -
  have "nightly_retrain io s = (Some ReadError, s) \<or> nightly_retrain io s = (Some TrainError, s)"
    using assms nightly_retrain_read_failure nightly_retrain_train_failure by blast
  then show ?thesis by auto
qed

theorem rebuild_failure_containment_witness:
  "(dataset read_failure = None
      \<or> (\<exists>rows. dataset read_failure = Some rows \<and> train read_failure (build_graph rows) = None))
   \<and> snd (nightly_retrain read_failure inserted_state) = inserted_state
   \<and> fst (nightly_retrain read_failure inserted_state) = Some ReadError
   \<and> run_loop failing_then_fine inserted_state = (Some ReadError, inserted_state)"
proof -
  have h: "dataset read_failure = None
      \<or> (\<exists>rows. dataset read_failure = Some rows \<and> train read_failure (build_graph rows) = None)"
    by (simp add: read_failure_def)
  have e: "fst (nightly_retrain read_failure inserted_state) = Some ReadError"
    by (simp add: nightly_retrain_read_failure read_failure_def)
  show ?thesis
    using h e rebuild_failure_containment[OF h, of inserted_state
        "\<lparr>due = True, env = read_failure\<rparr>" "[\<lparr>due = True, env = ok_retrain\<rparr>]"]
    by (simp add: failing_then_fine_def)
qed

text \<open>
  Claim C5, as stated, fails: the id \<open>skill_Rust\<close>, stored with type skill, is
  accepted with the type job, and the stored type is job afterwards.
\<close>

theorem insert_prefix_mismatch_counterexample:
  "fst (add_node_with_neighbors ok_insert no_noise ''skill_Rust'' ''job'' [] two_skill_state)
     = None
   \<and> get_node two_skill_state ''skill_Rust'' = Some [(''type'', ''skill'')]
   \<and> get_node (snd (add_node_with_neighbors ok_insert no_noise ''skill_Rust'' ''job'' []
        two_skill_state)) ''skill_Rust'' = Some [(''type'', ''job'')]"
  by code_simp

text \<open>
  Claim C5, amended. An insert checks the type only: a type outside job, skill and
  company is rejected with ValueError and nothing is changed. For an accepted type the
  id prefix is not compared with it: the inserted node is stored with the type
  supplied, whatever its id and whatever type it had. A listed neighbor that was not
  in the graph, is not the inserted node and starts with one of the three prefixes is
  stored with the type of its prefix.
\<close>

theorem insert_type_check_only:
  "(node_type \<notin> {''job'', ''skill'', ''company''} \<longrightarrow>
      add_node_with_neighbors io draw node_name node_type neighbors s = (Some ValueError, s))
   \<and> (node_type \<in> {''job'', ''skill'', ''company''} \<longrightarrow>
      (\<exists>a. get_node (snd (add_node_with_neighbors io draw node_name node_type neighbors s))
              node_name = Some a
           \<and> map_of a ''type'' = Some node_type)
      \<and> (n \<in> set neighbors \<and> n \<noteq> node_name \<and> get_node s n = None
           \<and> p \<in> {''job'', ''skill'', ''company''} \<and> startswith n (p @ ''_'') \<longrightarrow>
           get_node (snd (add_node_with_neighbors io draw node_name node_type neighbors s)) n
             = Some [(''type'', p)]))"
proof -
  have own: "\<exists>a. get_node (snd (add_node_with_neighbors io draw node_name node_type neighbors s))
              node_name = Some a \<and> map_of a ''type'' = Some node_type"
    if "node_type \<in> {''job'', ''skill'', ''company''}"
    using insert_graph_own_type[of node_name node_type neighbors "G s"] that
    by (simp only: get_node_def insert_G)
  have nb: "get_node (snd (add_node_with_neighbors io draw node_name node_type neighbors s)) n
             = Some [(''type'', p)]"
    if ty: "node_type \<in> {''job'', ''skill'', ''company''}"
      and n: "n \<in> set neighbors" "n \<noteq> node_name" "get_node s n = None"
        "p \<in> {''job'', ''skill'', ''company''}" "startswith n (p @ ''_'')"
  proof -
    have "\<not> has_node (G s) n" using n(3) by (simp add: has_node_def get_node_def)
    then have "\<not> has_node (add_node (G s) node_name [(''type'', node_type)]) n"
      using n(2) by (simp add: has_node_add_node)
    then have "map_of (nodes (insert_graph node_name node_type neighbors (G s))) n
        = Some [(''type'', p)]"
      unfolding insert_graph_def using n by (intro fold_connect_new_typed) auto
    then show ?thesis using ty by (simp only: get_node_def insert_G)
  qed
  show ?thesis using own nb insert_invalid_type by blast
qed

theorem insert_type_check_only_witness:
  "''color'' \<notin> {''job'', ''skill'', ''company''}
   \<and> add_node_with_neighbors ok_insert no_noise ''job_7'' ''color'' [''skill_Go''] init_state
       = (Some ValueError, init_state)
   \<and> ''job'' \<in> {''job'', ''skill'', ''company''}
   \<and> (''skill_Go'' \<in> set [''skill_Go''] \<and> ''skill_Go'' \<noteq> ''company_X''
        \<and> get_node init_state ''skill_Go'' = None
        \<and> ''skill'' \<in> {''job'', ''skill'', ''company''}
        \<and> startswith ''skill_Go'' (''skill'' @ ''_''))
   \<and> (\<exists>a. get_node (snd (add_node_with_neighbors ok_insert no_noise ''company_X'' ''job''
          [''skill_Go''] init_state)) ''company_X'' = Some a \<and> map_of a ''type'' = Some ''job'')
   \<and> get_node (snd (add_node_with_neighbors ok_insert no_noise ''company_X'' ''job''
          [''skill_Go''] init_state)) ''skill_Go'' = Some [(''type'', ''skill'')]"
proof -
  have a: "''color'' \<notin> {''job'', ''skill'', ''company''}" by simp
  have b: "''job'' \<in> {''job'', ''skill'', ''company''}" by simp
  have c: "''skill_Go'' \<in> set [''skill_Go''] \<and> ''skill_Go'' \<noteq> ''company_X''
        \<and> get_node init_state ''skill_Go'' = None
        \<and> ''skill'' \<in> {''job'', ''skill'', ''company''}
        \<and> startswith ''skill_Go'' (''skill'' @ ''_'')"
    by (simp add: get_node_def init_state_def empty_graph_def startswith_def)
  have r1: "add_node_with_neighbors ok_insert no_noise ''job_7'' ''color'' [''skill_Go'']
      init_state = (Some ValueError, init_state)"
    by (rule insert_type_check_only[of "''color''" ok_insert no_noise "''job_7''"
        "[''skill_Go'']" init_state "''skill_Go''" "''skill''", THEN conjunct1, THEN mp, OF a])
  have r2: "(\<exists>a. get_node (snd (add_node_with_neighbors ok_insert no_noise ''company_X'' ''job''
          [''skill_Go''] init_state)) ''company_X'' = Some a \<and> map_of a ''type'' = Some ''job'')
   \<and> get_node (snd (add_node_with_neighbors ok_insert no_noise ''company_X'' ''job''
          [''skill_Go''] init_state)) ''skill_Go'' = Some [(''type'', ''skill'')]"
    using b c insert_type_check_only[of "''job''" ok_insert no_noise "''company_X''"
        "[''skill_Go'']" init_state "''skill_Go''" "''skill''", THEN conjunct2]
    by (metis (no_types, lifting))
  show ?thesis using a b c r1 r2 by (elim conjE, intro conjI) assumption+
qed

text \<open>
  Claim C6 asks that both endpoints of an edge are typed nodes before the edge is
  recorded, also for a neighbor whose prefix is none of the three. The code run on
  the neighbor \<open>foo\<close>: the chain of line 49 to 56 has no branch for it and leaves the
  graph without \<open>foo\<close>; the edge is recorded all the same, and \<open>foo\<close> ends up as a
  node with no attribute, so with no type.
\<close>

theorem insert_unknown_prefix_endpoint:
  "fst (add_node_with_neighbors ok_insert no_noise ''job_1'' ''job'' [''foo''] init_state) = None
   \<and> infer_neighbor (add_node (G init_state) ''job_1'' [(''type'', ''job'')]) ''foo''
       = add_node (G init_state) ''job_1'' [(''type'', ''job'')]
   \<and> has_node (add_node (G init_state) ''job_1'' [(''type'', ''job'')]) ''foo'' = False
   \<and> map_of (edges (G (snd (add_node_with_neighbors ok_insert no_noise ''job_1'' ''job''
        [''foo''] init_state)))) {''job_1'', ''foo''} = Some []
   \<and> get_node (snd (add_node_with_neighbors ok_insert no_noise ''job_1'' ''job''
        [''foo''] init_state)) ''foo'' = Some []"
  by code_simp





text \<open>
  Claim C9. When the rebuild returns without an error, the dataset was read and the
  model was fitted on the graph built from it, and afterwards: the graph in memory is
  that graph; the embedding table has one entry per node of it, in the same order; a
  node the dataset prescribes is found and its embedding is the vector of the model; a
  node the dataset does not prescribe, whatever was inserted before, is found neither
  by \<open>get_node\<close> nor by \<open>get_embedding\<close>; and the ChangeLog file holds the empty list.
\<close>

theorem rebuild_supersedes:
  assumes "nightly_retrain io s = (None, s')"
  shows "\<exists>rows wv. dataset io = Some rows \<and> train io (build_graph rows) = Some wv
           \<and> G s' = build_graph rows
           \<and> map fst (embeddings s') = map fst (nodes (G s'))
           \<and> (\<forall>n. n \<in> dataset_nodes rows \<longrightarrow>
                  get_node s' n \<noteq> None \<and> get_embedding s' n = wv n \<and> wv n \<noteq> None)
           \<and> (\<forall>n. n \<notin> dataset_nodes rows \<longrightarrow>
                  get_node s' n = None \<and> get_embedding s' n = None)
           \<and> log_file s' = Some []"
proof -
  obtain rows wv ne where r: "dataset io = Some rows" "train io (build_graph rows) = Some wv"
    "collect_embeddings wv (map fst (nodes (build_graph rows))) = Some ne"
    "s' = s\<lparr>G := build_graph rows, embeddings := ne,
                      graph_file := Some (build_graph rows), emb_file := Some ne,
                      log_file := Some []\<rparr>"
    using nightly_retrain_success[OF assms] by blast
  have keys: "map fst ne = map fst (nodes (build_graph rows))"
    using collect_embeddings_keys[OF r(3)] .
  have ns: "set (map fst (nodes (build_graph rows))) = dataset_nodes rows"
    by (rule build_graph_nodes(1))
  have inside: "get_node s' n \<noteq> None \<and> get_embedding s' n = wv n \<and> wv n \<noteq> None"
    if "n \<in> dataset_nodes rows" for n
  proof -
    have mem: "n \<in> set (map fst (nodes (build_graph rows)))" using that ns by simp
    have "map_of ne n = wv n \<and> wv n \<noteq> None"
      using collect_embeddings_vals[OF r(3) mem] .
    moreover have "map_of (nodes (build_graph rows)) n \<noteq> None"
      using mem by (simp add: map_of_eq_None_iff)
    ultimately show ?thesis using r(4) by (simp add: get_node_def get_embedding_def)
  qed
  have outside: "get_node s' n = None \<and> get_embedding s' n = None"
    if "n \<notin> dataset_nodes rows" for n
  proof -
    have "n \<notin> fst ` set (nodes (build_graph rows))" using that ns by simp
    moreover have "n \<notin> fst ` set ne" using that ns keys by (metis set_map)
    ultimately show ?thesis
      using r(4) by (simp add: get_node_def get_embedding_def map_of_eq_None_iff)
  qed
  show ?thesis using r(1,2,4) keys inside outside by auto
qed

theorem rebuild_supersedes_witness:
  "nightly_retrain ok_retrain inserted_state
     = (None, snd (nightly_retrain ok_retrain inserted_state))
   \<and> get_node inserted_state ''job_42'' \<noteq> None
   \<and> get_node (snd (nightly_retrain ok_retrain inserted_state)) ''job_42'' = None
   \<and> get_embedding (snd (nightly_retrain ok_retrain inserted_state)) ''job_42'' = None
   \<and> log_file (snd (nightly_retrain ok_retrain inserted_state)) = Some []"
proof -
  have h: "nightly_retrain ok_retrain inserted_state
     = (None, snd (nightly_retrain ok_retrain inserted_state))"
    using ok_retrain_succeeds[of inserted_state] by (simp add: prod_eq_iff)
  show ?thesis
    using h rebuild_supersedes[OF h] job_42_not_in_jobs3 inserted_state_has_job_42
    by (auto simp: ok_retrain_def)
qed



end
